theory Spec2Isabelle
  imports Complex_Main
begin

section \<open>Numeric values and 3x3 arrays\<close>

text \<open>
  The module \<^verbatim>\<open>twinning.py\<close> computes with numpy arrays of double-precision numbers.
  The entries are taken as reals and the products, sums, quotients and square roots the
  module writes are the exact ones. The matrix inverse is not: \<^verbatim>\<open>numpy.linalg.inv\<close> is
  library code, an LU factorisation in double precision, which raises \<^verbatim>\<open>LinAlgError\<close>
  only when it meets a pivot that is exactly zero and otherwise returns a rounded matrix.
  The functions that call it take it as the parameter \<open>linv\<close>, and the theorems hold
  for every such function. What numpy does outside the finite numbers is written into
  the outcome of a call: a division by zero and the square root of a negative number
  raise nothing (numpy emits a warning) and give \<^verbatim>\<open>nan\<close> or \<^verbatim>\<open>inf\<close>; a call whose
  result holds such entries has the outcome \<open>NonFinite\<close>.
  A vector of shape (3,) is a triple, a matrix of shape (3,3) is the triple of its rows.
\<close>

type_synonym vec3 = "real \<times> real \<times> real"
type_synonym mat3 = "vec3 \<times> vec3 \<times> vec3"

datatype exn = LinAlgError | TypeError

datatype 'a outcome = Raises exn | NonFinite | Returns 'a

fun vget :: "vec3 \<Rightarrow> nat \<Rightarrow> real" where
  "vget (x, y, z) i = (if i = 0 then x else if i = 1 then y else z)"

fun vset :: "vec3 \<Rightarrow> nat \<Rightarrow> real \<Rightarrow> vec3" where
  "vset (x, y, z) i v = (if i = 0 then (v, y, z) else if i = 1 then (x, v, z) else (x, y, v))"

text \<open>\<^verbatim>\<open>M[i,j] = v\<close>; the source only writes the literal indices 0, 1 and 2.\<close>

fun mset :: "mat3 \<Rightarrow> nat \<Rightarrow> nat \<Rightarrow> real \<Rightarrow> mat3" where
  "mset (r0, r1, r2) i j v =
     (if i = 0 then (vset r0 j v, r1, r2)
      else if i = 1 then (r0, vset r1 j v, r2)
      else (r0, r1, vset r2 j v))"

text \<open>\<^verbatim>\<open>np.zeros([3,3])\<close>\<close>

definition zeros33 :: mat3 where
  "zeros33 = ((0, 0, 0), (0, 0, 0), (0, 0, 0))"

definition ident33 :: mat3 where
  "ident33 = ((1, 0, 0), (0, 1, 0), (0, 0, 1))"

text \<open>Unary minus on a vector, and a vector divided by a scalar.\<close>

fun vneg :: "vec3 \<Rightarrow> vec3" where
  "vneg (x, y, z) = (- x, - y, - z)"

fun vdiv :: "vec3 \<Rightarrow> real \<Rightarrow> vec3" where
  "vdiv (x, y, z) n = (x / n, y / n, z / n)"

fun vscale :: "real \<Rightarrow> vec3 \<Rightarrow> vec3" where
  "vscale c (x, y, z) = (c * x, c * y, c * z)"

text \<open>\<^verbatim>\<open>v @ w.T\<close> on two arrays of shape (3,): the inner product.\<close>

fun dot :: "vec3 \<Rightarrow> vec3 \<Rightarrow> real" where
  "dot (x, y, z) (u, v, w) = x * u + y * v + z * w"

text \<open>\<^verbatim>\<open>M.T\<close>\<close>

fun transpose33 :: "mat3 \<Rightarrow> mat3" where
  "transpose33 ((a, b, c), (d, e, f), (g, h, i)) = ((a, d, g), (b, e, h), (c, f, i))"

text \<open>\<^verbatim>\<open>M @ v\<close>: matrix times column; \<^verbatim>\<open>v @ M\<close>: row times matrix; \<^verbatim>\<open>M @ N\<close>.\<close>

fun matvec :: "mat3 \<Rightarrow> vec3 \<Rightarrow> vec3" where
  "matvec (r0, r1, r2) v = (dot r0 v, dot r1 v, dot r2 v)"

definition vecmat :: "vec3 \<Rightarrow> mat3 \<Rightarrow> vec3" where
  "vecmat v M = matvec (transpose33 M) v"

fun matmul :: "mat3 \<Rightarrow> mat3 \<Rightarrow> mat3" where
  "matmul (r0, r1, r2) N = (vecmat r0 N, vecmat r1 N, vecmat r2 N)"

text \<open>\<^verbatim>\<open>M * a\<close> with a scalar \<open>a\<close>.\<close>

fun mscale :: "mat3 \<Rightarrow> real \<Rightarrow> mat3" where
  "mscale (r0, r1, r2) a = (vscale a r0, vscale a r1, vscale a r2)"

text \<open>\<^verbatim>\<open>np.trace\<close>\<close>

fun np_trace :: "mat3 \<Rightarrow> real" where
  "np_trace ((a, b, c), (d, e, f), (g, h, i)) = a + e + i"

fun det33 :: "mat3 \<Rightarrow> real" where
  "det33 ((a, b, c), (d, e, f), (g, h, i)) =
     a * (e * i - f * h) - b * (d * i - f * g) + c * (d * h - e * g)"

fun adjugate33 :: "mat3 \<Rightarrow> mat3" where
  "adjugate33 ((a, b, c), (d, e, f), (g, h, i)) =
     ((e * i - f * h, c * h - b * i, b * f - c * e),
      (f * g - d * i, a * i - c * g, c * d - a * f),
      (d * h - e * g, b * g - a * h, a * e - b * d))"

text \<open>The inverse of a matrix with non-zero determinant.\<close>

definition minverse :: "mat3 \<Rightarrow> mat3" where
  "minverse M = mscale (adjugate33 M) (1 / det33 M)"

text \<open>
  An inverse that does not round: it raises on determinant 0 and returns the inverse
  otherwise. \<^verbatim>\<open>numpy.linalg.inv\<close> agrees with it on the matrices whose factorisation
  and inverse are exact in double precision: the identity, the diagonal matrices of
  powers of two, the triangular matrix \<open>[[1,3/2,0],[0,1,0],[0,0,1]]\<close>, the matrices with a
  zero row. It is used at such matrices only, as the value of the parameter \<open>linv\<close> in
  the examples.
\<close>

definition exact_inv :: "mat3 \<Rightarrow> exn + mat3" where
  "exact_inv M = (if det33 M = 0 then Inl LinAlgError else Inr (minverse M))"



section \<open>applythresh\<close>

text \<open>
  \<^verbatim>\<open>ind = np.absolute(P) < t; P[ind] = 0; return P\<close>

  The docstring admits a float, a list or an array for \<open>P\<close>. Item assignment exists on
  arrays only: on a Python float it raises \<^verbatim>\<open>TypeError\<close>, and a list does not take an
  array as index, which raises \<^verbatim>\<open>TypeError\<close> as well. On an array the boolean mask
  selects the entries below the threshold and the assignment overwrites them in the
  array object the caller passed. Objects live in a store, arguments and results are
  references into it. An array is its shape and its entries in row-major order.
\<close>

datatype pyobj = PyFloat real | PyList "real list" | NdArray "nat list" "real list"

type_synonym ref = nat
type_synonym store = "ref \<Rightarrow> pyobj"

text \<open>The default threshold \<^verbatim>\<open>t=10**-9\<close>.\<close>

definition default_t :: real where
  "default_t = 1 / 10 ^ 9"

text \<open>One entry under \<^verbatim>\<open>P[np.absolute(P) < t] = 0\<close>.\<close>

definition mask_zero :: "real \<Rightarrow> real \<Rightarrow> real" where
  "mask_zero t e = (if \<bar>e\<bar> < t then 0 else e)"

definition applythresh :: "ref \<Rightarrow> real \<Rightarrow> store \<Rightarrow> exn + (ref \<times> store)" where
  "applythresh P t h =
     (case h P of
        PyFloat x \<Rightarrow> Inl TypeError
      | PyList xs \<Rightarrow> Inl TypeError
      | NdArray shape xs \<Rightarrow> Inr (P, h(P := NdArray shape (map (mask_zero t) xs))))"

section \<open>angleTBpair\<close>

text \<open>
  \<^verbatim>\<open>k1_r = k1_m @ inv(rPm); k2_r = k2_m @ inv(rPm)\<close>,
  \<^verbatim>\<open>m1 = -k1_r[0]/k1_r[1]; m2 = -k2_r[0]/k2_r[1]\<close>,
  \<^verbatim>\<open>phi = np.arctan(np.abs((m1-m2)/(1+(m1*m2))))\<close>, returned in degrees.
  The plane normals are arrays of shape (3,), on which the indexing \<^verbatim>\<open>k1_r[1]\<close> is
  defined.

  A zero second component makes the slope infinite or \<^verbatim>\<open>nan\<close>, and the quotient
  that follows \<^verbatim>\<open>nan\<close>. When both slopes are finite and \<open>1 + m1 * m2 = 0\<close>, the
  numerator is not zero, the quotient is infinite and its arc tangent is \<open>pi / 2\<close>.
\<close>

definition np_degrees :: "real \<Rightarrow> real" where
  "np_degrees x = x * (180 / pi)"

definition angleTBpair :: "(mat3 \<Rightarrow> exn + mat3) \<Rightarrow> mat3 \<Rightarrow> vec3 \<Rightarrow> vec3 \<Rightarrow> real outcome" where
  "angleTBpair linv rPm k1_m k2_m =
     (case linv rPm of
        Inl e \<Rightarrow> Raises e
      | Inr Pinv \<Rightarrow>
          (let k1_r = vecmat k1_m Pinv;
               k2_r = vecmat k2_m Pinv
           in if vget k1_r 1 = 0 \<or> vget k2_r 1 = 0 then NonFinite
              else
                (let m1 = - vget k1_r 0 / vget k1_r 1;
                     m2 = - vget k2_r 0 / vget k2_r 1
                 in if 1 + (m1 * m2) = 0 then Returns (np_degrees (pi / 2))
                    else Returns (np_degrees (arctan \<bar>(m1 - m2) / (1 + (m1 * m2))\<bar>)))))"

section \<open>OR_NCtwins\<close>

text \<open>The correspondence matrix \<^verbatim>\<open>C = np.array([[0,-1,0],[1,0,0],[0,0,1]])\<close>.\<close>

definition corrC :: mat3 where
  "corrC = ((0, - 1, 0), (1, 0, 0), (0, 0, 1))"

text \<open>
  The nine assignments \<^verbatim>\<open>rS[i,j] = ... + s * rl[i] * rm[j]\<close> on \<^verbatim>\<open>np.zeros([3,3])\<close>,
  in the order of the source.
\<close>

definition shear_matrix :: "real \<Rightarrow> vec3 \<Rightarrow> vec3 \<Rightarrow> mat3" where
  "shear_matrix s rl rm =
     (let rS = zeros33;
          rS = mset rS 0 0 (1 + s * vget rl 0 * vget rm 0);
          rS = mset rS 0 1 (0 + s * vget rl 0 * vget rm 1);
          rS = mset rS 0 2 (0 + s * vget rl 0 * vget rm 2);
          rS = mset rS 1 0 (0 + s * vget rl 1 * vget rm 0);
          rS = mset rS 1 1 (1 + s * vget rl 1 * vget rm 1);
          rS = mset rS 1 2 (0 + s * vget rl 1 * vget rm 2);
          rS = mset rS 2 0 (0 + s * vget rl 2 * vget rm 0);
          rS = mset rS 2 1 (0 + s * vget rl 2 * vget rm 1);
          rS = mset rS 2 2 (1 + s * vget rl 2 * vget rm 2)
      in rS)"

text \<open>
  The calls that can raise are the four calls of \<^verbatim>\<open>inv\<close>, in this order: on \<open>G\<close>, on
  \<open>rPm\<close> (twice) and on \<open>rS\<close>. A negative radicand makes \<open>s\<close> \<^verbatim>\<open>nan\<close>, a zero norm
  makes \<open>rm\<close> or \<open>rl\<close> \<^verbatim>\<open>nan\<close>; either way every entry of \<open>rS\<close> is \<^verbatim>\<open>nan\<close>, its
  inverse is computed without an error and the result is an array of \<^verbatim>\<open>nan\<close>.
\<close>

definition OR_NCtwins ::
  "(mat3 \<Rightarrow> exn + mat3) \<Rightarrow> vec3 \<Rightarrow> vec3 \<Rightarrow> mat3 \<Rightarrow> real \<Rightarrow> bool \<Rightarrow> mat3 outcome" where
  "OR_NCtwins linv K1 eta1 rPm a normal_pos =
     (let eta1 = (if normal_pos = False then vneg eta1 else eta1);
          K1 = (if normal_pos = False then vneg K1 else K1);
          X = mscale rPm a;
          G = matmul (transpose33 X) X;
          C = corrC
      in case linv G of
           Inl e \<Rightarrow> Raises e
         | Inr Ginv \<Rightarrow>
             (let radicand = np_trace (matmul (matmul (matmul (transpose33 C) G) C) Ginv) - 3
              in case linv rPm of
                   Inl e \<Rightarrow> Raises e
                 | Inr Pinv \<Rightarrow>
                     (let rm = vecmat K1 Pinv;
                          rl = matvec rPm eta1
                      in if radicand < 0 \<or> sqrt (dot rm rm) = 0 \<or> sqrt (dot rl rl) = 0
                         then NonFinite
                         else
                           (let s = sqrt radicand;
                                rm = vdiv rm (sqrt (dot rm rm));
                                rl = vdiv rl (sqrt (dot rl rl));
                                rS = shear_matrix s rl rm
                            in case linv rS of
                                 Inl e \<Rightarrow> Raises e
                               | Inr Sinv \<Rightarrow>
                                   Returns (matmul (matmul (matmul rPm C) Pinv) Sinv)))))"

section \<open>The formula of the specification\<close>

text \<open>
  The specification describes the result of \<^verbatim>\<open>OR_NCtwins\<close> with the words of linear
  algebra. These definitions follow its words, not the source: an inverse is a two-sided
  inverse, a unit vector is the vector scaled by the reciprocal of its length, and the
  shear matrix has the entry \<open>\<delta>\<^sub>i\<^sub>j + s * l\<^sub>i * m\<^sub>j\<close> in row \<open>i\<close> and column \<open>j\<close>.
\<close>

definition spec_inverse :: "mat3 \<Rightarrow> mat3 \<Rightarrow> bool" where
  "spec_inverse M N \<longleftrightarrow> matmul M N = ident33 \<and> matmul N M = ident33"



section \<open>Vectors and matrices\<close>

lemma mat3_exhaust:
  obtains a b c d e f g h i where "M = ((a, b, c), (d, e, f), (g, h, i))"
  by (cases M rule: prod_cases3) (metis prod_cases3)

lemma vneg_vneg: "vneg (vneg v) = v"
  by (cases v) simp

lemma dot_vneg: "dot (vneg v) (vneg v) = dot v v"
  by (cases v) simp

lemma matvec_vneg: "matvec M (vneg v) = vneg (matvec M v)"
  by (cases M rule: mat3_exhaust; cases v rule: prod_cases3) simp

lemma vecmat_vneg: "vecmat (vneg v) M = vneg (vecmat v M)"
  by (simp add: vecmat_def matvec_vneg)

lemma vdiv_vneg: "vdiv (vneg v) n = vneg (vdiv v n)"
  by (cases v) simp


lemma dot_nonneg: "0 \<le> dot v v"
  by (cases v rule: prod_cases3) simp


lemma det33_matmul: "det33 (matmul M N) = det33 M * det33 N"
  by (cases M rule: mat3_exhaust; cases N rule: mat3_exhaust) (simp add: vecmat_def algebra_simps)

lemma det33_transpose33: "det33 (transpose33 M) = det33 M"
  by (cases M rule: mat3_exhaust) (simp add: algebra_simps)

lemma det33_mscale: "det33 (mscale M a) = a ^ 3 * det33 M"
  by (cases M rule: mat3_exhaust) (simp add: algebra_simps power3_eq_cube)

lemma det33_ident33: "det33 ident33 = 1"
  by (simp add: ident33_def)

lemma matmul_assoc: "matmul (matmul A B) C = matmul A (matmul B C)"
  by (cases A rule: mat3_exhaust; cases B rule: mat3_exhaust; cases C rule: mat3_exhaust)
     (simp add: vecmat_def algebra_simps)

lemma matmul_ident33_left: "matmul ident33 M = M"
  by (cases M rule: mat3_exhaust) (simp add: vecmat_def ident33_def)

lemma matmul_ident33_right: "matmul M ident33 = M"
  by (cases M rule: mat3_exhaust) (simp add: vecmat_def ident33_def)

lemma vecmat_vecmat: "vecmat (vecmat v M) N = vecmat v (matmul M N)"
  by (cases v rule: prod_cases3; cases M rule: mat3_exhaust; cases N rule: mat3_exhaust)
     (simp add: vecmat_def algebra_simps)

lemma matvec_matvec: "matvec M (matvec N v) = matvec (matmul M N) v"
  by (cases v rule: prod_cases3; cases M rule: mat3_exhaust; cases N rule: mat3_exhaust)
     (simp add: vecmat_def algebra_simps)

lemma vecmat_ident33: "vecmat v ident33 = v"
  by (cases v rule: prod_cases3) (simp add: vecmat_def ident33_def)

lemma matvec_ident33: "matvec ident33 v = v"
  by (cases v rule: prod_cases3) (simp add: ident33_def)

lemma vecmat_zero: "vecmat (0, 0, 0) M = (0, 0, 0)"
  by (cases M rule: mat3_exhaust) (simp add: vecmat_def)

lemma matvec_zero: "matvec M (0, 0, 0) = (0, 0, 0)"
  by (cases M rule: mat3_exhaust) simp

subsection \<open>The inverse without rounding is the two-sided inverse\<close>

lemma matmul_adjugate33_right: "matmul M (adjugate33 M) = mscale ident33 (det33 M)"
  by (cases M rule: mat3_exhaust) (simp add: vecmat_def ident33_def algebra_simps)

lemma matmul_adjugate33_left: "matmul (adjugate33 M) M = mscale ident33 (det33 M)"
  by (cases M rule: mat3_exhaust) (simp add: vecmat_def ident33_def algebra_simps)

lemma matmul_mscale_right: "matmul M (mscale N a) = mscale (matmul M N) a"
  by (cases M rule: mat3_exhaust; cases N rule: mat3_exhaust) (simp add: vecmat_def algebra_simps)

lemma matmul_mscale_left: "matmul (mscale M a) N = mscale (matmul M N) a"
  by (cases M rule: mat3_exhaust; cases N rule: mat3_exhaust) (simp add: vecmat_def algebra_simps)

lemma mscale_mscale_ident33: "a \<noteq> 0 \<Longrightarrow> mscale (mscale ident33 a) (1 / a) = ident33"
  by (simp add: ident33_def)

lemma matmul_minverse_right: "det33 M \<noteq> 0 \<Longrightarrow> matmul M (minverse M) = ident33"
  by (simp add: minverse_def matmul_mscale_right matmul_adjugate33_right mscale_mscale_ident33)

lemma matmul_minverse_left: "det33 M \<noteq> 0 \<Longrightarrow> matmul (minverse M) M = ident33"
  by (simp add: minverse_def matmul_mscale_left matmul_adjugate33_left mscale_mscale_ident33)

lemma spec_inverse_minverse: "det33 M \<noteq> 0 \<Longrightarrow> spec_inverse M (minverse M)"
  by (simp add: spec_inverse_def matmul_minverse_right matmul_minverse_left)

lemma spec_inverse_det33: "spec_inverse M N \<Longrightarrow> det33 M \<noteq> 0"
proof
  assume inv: "spec_inverse M N" and zero: "det33 M = 0"
  have "det33 (matmul M N) = 1"
    using inv by (simp add: spec_inverse_def det33_ident33)
  then show False
    using zero by (simp add: det33_matmul)
qed

lemma spec_inverse_unique:
  assumes "spec_inverse M N"
  shows "N = minverse M"
proof -
  have d: "det33 M \<noteq> 0"
    using assms by (rule spec_inverse_det33)
  have "N = matmul ident33 N"
    by (simp add: matmul_ident33_left)
  also have "\<dots> = matmul (matmul (minverse M) M) N"
    using d by (simp add: matmul_minverse_left)
  also have "\<dots> = matmul (minverse M) (matmul M N)"
    by (rule matmul_assoc)
  also have "\<dots> = minverse M"
    using assms by (simp add: spec_inverse_def matmul_ident33_right)
  finally show ?thesis .
qed

lemma exact_inv_spec_inverse: "spec_inverse M N \<Longrightarrow> exact_inv M = Inr N"
  using spec_inverse_det33 [of M N] spec_inverse_unique [of M N] by (simp add: exact_inv_def)

lemma exact_inv_singular: "det33 M = 0 \<Longrightarrow> exact_inv M = Inl LinAlgError"
  by (simp add: exact_inv_def)

lemma vecmat_nonzero:
  assumes "spec_inverse M N" and "v \<noteq> (0, 0, 0)"
  shows "vecmat v N \<noteq> (0, 0, 0)"
proof
  assume "vecmat v N = (0, 0, 0)"
  then have "vecmat (vecmat v N) M = (0, 0, 0)"
    by (simp add: vecmat_zero)
  then have "v = (0, 0, 0)"
    using assms(1) by (simp add: vecmat_vecmat spec_inverse_def vecmat_ident33)
  then show False using assms(2) by simp
qed

lemma matvec_nonzero:
  assumes "spec_inverse M N" and "v \<noteq> (0, 0, 0)"
  shows "matvec M v \<noteq> (0, 0, 0)"
proof
  assume "matvec M v = (0, 0, 0)"
  then have "matvec N (matvec M v) = (0, 0, 0)"
    by (simp add: matvec_zero)
  then have "v = (0, 0, 0)"
    using assms(1) by (simp add: matvec_matvec spec_inverse_def matvec_ident33)
  then show False using assms(2) by simp
qed

subsection \<open>With the inverse not rounded the radicand is never negative\<close>

text \<open>
  With \<open>X\<close> invertible, \<open>G = X\<^sup>T X\<close> and the inverse of \<open>G\<close> taken without rounding, the
  trace of \<open>C\<^sup>T G C G\<^sup>-\<^sup>1\<close> is the sum of the squared entries of \<open>M = X C X\<^sup>-\<^sup>1\<close>, a
  matrix of determinant 1. The determinant is at most the product of the lengths of the
  rows, and the product of three non-negative numbers is at most the cube of their mean:
  the sum of the squares is at least 3. A negative radicand comes from the rounding of
  the inverse alone.
\<close>

lemma transpose33_matmul: "transpose33 (matmul A B) = matmul (transpose33 B) (transpose33 A)"
  by (cases A rule: mat3_exhaust; cases B rule: mat3_exhaust) (simp add: vecmat_def algebra_simps)

lemma transpose33_ident33: "transpose33 ident33 = ident33"
  by (simp add: ident33_def)

lemma np_trace_matmul_commute: "np_trace (matmul A B) = np_trace (matmul B A)"
  by (cases A rule: mat3_exhaust; cases B rule: mat3_exhaust) (simp add: vecmat_def algebra_simps)

lemma cauchy_schwarz3:
  fixes a b c u v w :: real
  shows "(a * u + b * v + c * w) ^ 2 \<le> (a ^ 2 + b ^ 2 + c ^ 2) * (u ^ 2 + v ^ 2 + w ^ 2)"
proof -
  have "(a ^ 2 + b ^ 2 + c ^ 2) * (u ^ 2 + v ^ 2 + w ^ 2) - (a * u + b * v + c * w) ^ 2
      = (a * v - b * u) ^ 2 + (a * w - c * u) ^ 2 + (b * w - c * v) ^ 2"
    by (simp add: power2_eq_square algebra_simps)
  moreover have "0 \<le> (a * v - b * u) ^ 2 + (a * w - c * u) ^ 2 + (b * w - c * v) ^ 2"
    by simp
  ultimately show ?thesis by linarith
qed

lemma cross_le:
  fixes d e f g h i :: real
  shows "(e * i - f * h) ^ 2 + (f * g - d * i) ^ 2 + (d * h - e * g) ^ 2
           \<le> (d ^ 2 + e ^ 2 + f ^ 2) * (g ^ 2 + h ^ 2 + i ^ 2)"
proof -
  have "(d ^ 2 + e ^ 2 + f ^ 2) * (g ^ 2 + h ^ 2 + i ^ 2)
        - ((e * i - f * h) ^ 2 + (f * g - d * i) ^ 2 + (d * h - e * g) ^ 2)
      = (d * g + e * h + f * i) ^ 2"
    by (simp add: power2_eq_square algebra_simps)
  moreover have "0 \<le> (d * g + e * h + f * i) ^ 2"
    by simp
  ultimately show ?thesis by linarith
qed

lemma am_gm3:
  fixes x y z :: real
  assumes "0 \<le> x" "0 \<le> y" "0 \<le> z"
  shows "27 * (x * y * z) \<le> (x + y + z) ^ 3"
proof -
  define A where "A = x ^ 3 + y ^ 3 + z ^ 3"
  define B where "B = x ^ 2 * y + x ^ 2 * z + y ^ 2 * x + y ^ 2 * z + z ^ 2 * x + z ^ 2 * y"
  define C where "C = x * y * z"
  have cubes: "A - 3 * C = (x + y + z) * ((x - y) ^ 2 + (y - z) ^ 2 + (z - x) ^ 2) / 2"
    by (simp add: A_def C_def power2_eq_square power3_eq_cube algebra_simps)
  have "0 \<le> (x + y + z) * ((x - y) ^ 2 + (y - z) ^ 2 + (z - x) ^ 2) / 2"
    using assms by simp
  then have c: "3 * C \<le> A"
    using cubes by linarith
  have mixed: "B - 6 * C = x * (y - z) ^ 2 + y * (z - x) ^ 2 + z * (x - y) ^ 2"
    by (simp add: B_def C_def power2_eq_square algebra_simps)
  have "0 \<le> x * (y - z) ^ 2 + y * (z - x) ^ 2 + z * (x - y) ^ 2"
    using assms by simp
  then have m: "6 * C \<le> B"
    using mixed by linarith
  have "(x + y + z) ^ 3 = A + 3 * B + 6 * C"
    by (simp add: A_def B_def C_def power2_eq_square power3_eq_cube algebra_simps)
  then have "27 * C \<le> (x + y + z) ^ 3"
    using c m by linarith
  then show ?thesis
    by (simp add: C_def)
qed

lemma sum_ge_3:
  fixes x y z :: real
  assumes "0 \<le> x" "0 \<le> y" "0 \<le> z" and "1 \<le> x * y * z"
  shows "3 \<le> x + y + z"
proof (rule ccontr)
  assume "\<not> 3 \<le> x + y + z"
  then have lt: "x + y + z < 3" by simp
  have nn: "0 \<le> x + y + z" using assms by simp
  have "(x + y + z) ^ 3 < 3 ^ 3"
    using lt nn by (rule power_strict_mono) simp
  moreover have "27 \<le> (x + y + z) ^ 3"
    using am_gm3 [OF assms(1-3)] assms(4) by linarith
  ultimately show False by simp
qed

lemma frobenius_ge_3:
  assumes "det33 M = 1"
  shows "3 \<le> np_trace (matmul (transpose33 M) M)"
proof (cases M rule: mat3_exhaust)
  case (1 a b c d e f g h i)
  define x where "x = a ^ 2 + b ^ 2 + c ^ 2"
  define y where "y = d ^ 2 + e ^ 2 + f ^ 2"
  define z where "z = g ^ 2 + h ^ 2 + i ^ 2"
  define n where "n = (e * i - f * h) ^ 2 + (f * g - d * i) ^ 2 + (d * h - e * g) ^ 2"
  have x0: "0 \<le> x" and y0: "0 \<le> y" and z0: "0 \<le> z"
    by (simp_all add: x_def y_def z_def)
  have "det33 M = a * (e * i - f * h) + b * (f * g - d * i) + c * (d * h - e * g)"
    using 1 by (simp add: algebra_simps)
  then have "1 = (a * (e * i - f * h) + b * (f * g - d * i) + c * (d * h - e * g)) ^ 2"
    using assms by simp
  also have "\<dots> \<le> x * n"
    unfolding x_def n_def by (rule cauchy_schwarz3)
  also have "\<dots> \<le> x * (y * z)"
    unfolding n_def y_def z_def using x0 by (intro mult_left_mono cross_le)
  finally have "1 \<le> x * y * z"
    by (simp add: mult.assoc)
  then have "3 \<le> x + y + z"
    using x0 y0 z0 by (intro sum_ge_3)
  moreover have "np_trace (matmul (transpose33 M) M) = x + y + z"
    using 1 by (simp add: vecmat_def x_def y_def z_def power2_eq_square)
  ultimately show ?thesis by simp
qed

lemma det33_corrC: "det33 corrC = 1"
  by (simp add: corrC_def)

lemma radicand_nonneg:
  assumes "spec_inverse (matmul (transpose33 X) X) Ginv"
  shows "0 \<le> np_trace (matmul (matmul (matmul (transpose33 corrC) (matmul (transpose33 X) X))
                  corrC) Ginv) - 3"
proof -
  let ?G = "matmul (transpose33 X) X"
  let ?Xi = "minverse X"
  let ?M = "matmul (matmul X corrC) ?Xi"
  have "det33 ?G \<noteq> 0"
    using assms by (rule spec_inverse_det33)
  then have dX: "det33 X \<noteq> 0"
    by (simp add: det33_matmul det33_transpose33)
  have r: "matmul X ?Xi = ident33" and l: "matmul ?Xi X = ident33"
    using dX by (simp_all add: matmul_minverse_right matmul_minverse_left)
  have lt: "matmul (transpose33 X) (transpose33 ?Xi) = ident33"
    using l by (simp add: transpose33_matmul [symmetric] transpose33_ident33)
  have rt: "matmul (transpose33 ?Xi) (transpose33 X) = ident33"
    using r by (simp add: transpose33_matmul [symmetric] transpose33_ident33)
  have "matmul ?G (matmul ?Xi (transpose33 ?Xi))
      = matmul (transpose33 X) (matmul (matmul X ?Xi) (transpose33 ?Xi))"
    by (simp add: matmul_assoc)
  then have g1: "matmul ?G (matmul ?Xi (transpose33 ?Xi)) = ident33"
    by (simp add: r matmul_ident33_left lt)
  have "matmul (matmul ?Xi (transpose33 ?Xi)) ?G
      = matmul ?Xi (matmul (matmul (transpose33 ?Xi) (transpose33 X)) X)"
    by (simp add: matmul_assoc)
  then have g2: "matmul (matmul ?Xi (transpose33 ?Xi)) ?G = ident33"
    by (simp add: rt matmul_ident33_left l)
  have "spec_inverse ?G (matmul ?Xi (transpose33 ?Xi))"
    using g1 g2 by (simp add: spec_inverse_def)
  then have "matmul ?Xi (transpose33 ?Xi) = minverse ?G"
    by (rule spec_inverse_unique)
  moreover have "Ginv = minverse ?G"
    using assms by (rule spec_inverse_unique)
  ultimately have Ginv: "Ginv = matmul ?Xi (transpose33 ?Xi)"
    by simp
  have "np_trace (matmul (matmul (matmul (transpose33 corrC) ?G) corrC) Ginv)
      = np_trace (matmul (matmul (matmul (matmul (transpose33 corrC) ?G) corrC) ?Xi)
          (transpose33 ?Xi))"
    by (simp add: Ginv matmul_assoc)
  also have "\<dots> = np_trace (matmul (transpose33 ?Xi)
          (matmul (matmul (matmul (transpose33 corrC) ?G) corrC) ?Xi))"
    by (rule np_trace_matmul_commute)
  also have "\<dots> = np_trace (matmul (transpose33 ?M) ?M)"
    by (simp add: transpose33_matmul matmul_assoc)
  finally have tr: "np_trace (matmul (matmul (matmul (transpose33 corrC) ?G) corrC) Ginv)
      = np_trace (matmul (transpose33 ?M) ?M)" .
  have "det33 ?M = det33 (matmul X ?Xi)"
    by (simp add: det33_matmul det33_corrC)
  then have "det33 ?M = 1"
    by (simp add: r det33_ident33)
  then have "3 \<le> np_trace (matmul (transpose33 ?M) ?M)"
    by (rule frobenius_ge_3)
  then show ?thesis
    using tr by simp
qed

subsection \<open>Square roots of the examples\<close>

lemma sqrt_9_4: "sqrt (9 / 4) = 3 / 2"
  by (rule real_sqrt_unique) (simp_all add: power2_eq_square)

lemma sqrt_1_4: "sqrt (1 / 4) = 1 / 2"
  by (rule real_sqrt_unique) (simp_all add: power2_eq_square)



section \<open>applythresh: results and effect on the store\<close>

lemma mask_zero_cases: "mask_zero t e = 0 \<or> (mask_zero t e = e \<and> t \<le> \<bar>e\<bar>)"
  by (simp add: mask_zero_def)

lemma mask_zero_idem: "mask_zero t (mask_zero t e) = mask_zero t e"
  by (simp add: mask_zero_def)

lemma applythresh_ndarray_entries:
  assumes "h P = NdArray shape xs"
  shows "\<exists>ys. applythresh P t h = Inr (P, h(P := NdArray shape ys)) \<and>
              length ys = length xs \<and>
              (\<forall>i < length xs. ys ! i = (if \<bar>xs ! i\<bar> < t then 0 else xs ! i) \<and>
                                (t \<le> \<bar>ys ! i\<bar> \<or> ys ! i = 0))"
proof -
  have "applythresh P t h = Inr (P, h(P := NdArray shape (map (mask_zero t) xs)))"
    using assms by (simp add: applythresh_def)
  moreover have "\<forall>i < length xs. map (mask_zero t) xs ! i = (if \<bar>xs ! i\<bar> < t then 0 else xs ! i) \<and>
      (t \<le> \<bar>map (mask_zero t) xs ! i\<bar> \<or> map (mask_zero t) xs ! i = 0)"
    by (simp add: mask_zero_def)
  ultimately show ?thesis
    by (intro exI [of _ "map (mask_zero t) xs"]) simp
qed

text \<open>
  Claim C3. For every numeric array or scalar \<open>P\<close> and every threshold \<open>t\<close>,
  \<^verbatim>\<open>applythresh(P, t)\<close> returns \<open>P\<close> with the entries of absolute value below \<open>t\<close>
  replaced by 0 and the others unchanged. The docstring lists a float among the
  arguments \<open>P\<close> may be; on the Python float \<open>0.5\<close>, with the default threshold, the call
  does not return: the item assignment \<^verbatim>\<open>P[ind] = 0\<close> raises \<^verbatim>\<open>TypeError\<close>.
\<close>

theorem applythresh_float_raises:
  "applythresh 0 default_t (\<lambda>_. PyFloat (1 / 2)) = Inl TypeError"
  by (simp add: applythresh_def)

text \<open>
  Claim C9. For every numeric array \<open>P\<close>, \<^verbatim>\<open>applythresh(P, t)\<close> overwrites the entries
  below the threshold in the caller's array itself and returns that same array: the
  reference returned is the argument, the store holds the updated array under it, and no
  other object of the store changes.
\<close>

theorem applythresh_mutates_in_place:
  assumes "h P = NdArray shape xs"
  shows "applythresh P t h =
           Inr (P, h(P := NdArray shape (map (\<lambda>e. if \<bar>e\<bar> < t then 0 else e) xs)))"
  using assms by (simp add: applythresh_def mask_zero_def [abs_def])

theorem applythresh_mutates_in_place_witness:
  "applythresh 0 default_t (\<lambda>_. NdArray [3] [1, 1 / 10 ^ 10, - 2])
     = Inr (0, (\<lambda>_. NdArray [3] [1, 1 / 10 ^ 10, - 2])(0 := NdArray [3] [1, 0, - 2]))"
  using applythresh_mutates_in_place
    [of "\<lambda>_. NdArray [3] [1, 1 / 10 ^ 10, - 2]" 0 "[3]" "[1, 1 / 10 ^ 10, - 2]" default_t]
  by (simp add: default_t_def)

section \<open>angleTBpair is symmetric\<close>

text \<open>
  Claim C8. For every \<open>rPm\<close> and every pair of plane normals \<open>k1\<close>, \<open>k2\<close>, the angle
  calculator gives the same outcome for both orders of the planes:
  \<open>angleTBpair rPm k1 k2 = angleTBpair rPm k2 k1\<close>, whatever the library returns as the
  inverse of \<open>rPm\<close>. Where the computation is defined this is the equality of the two
  angles; when the inverse raises, it raises in both orders.
\<close>

theorem angleTBpair_symmetric: "angleTBpair linv rPm k1 k2 = angleTBpair linv rPm k2 k1"
  by (auto simp: angleTBpair_def Let_def mult.commute abs_minus_commute split: sum.splits)

theorem angleTBpair_symmetric_witness:
  "angleTBpair exact_inv ((1, 0, 0), (0, 1, 0), (0, 0, 1)) (1, 1, 0) (0, 1, 0) = Returns 45 \<and>
   angleTBpair exact_inv ((1, 0, 0), (0, 1, 0), (0, 0, 1)) (0, 1, 0) (1, 1, 0) = Returns 45"
proof -
  have "angleTBpair exact_inv ((1, 0, 0), (0, 1, 0), (0, 0, 1)) (1, 1, 0) (0, 1, 0) = Returns 45"
    by (simp add: angleTBpair_def Let_def exact_inv_def minverse_def vecmat_def np_degrees_def
        arctan_one)
  then show ?thesis
    using angleTBpair_symmetric
      [of exact_inv "((1, 0, 0), (0, 1, 0), (0, 0, 1))" "(1, 1, 0)" "(0, 1, 0)"]
    by simp
qed

section \<open>OR_NCtwins: the orientation relationship\<close>

text \<open>
  The nine assignments of the source fill \<open>rS\<close> with the identity plus \<open>s\<close> times the
  outer product of \<open>rl\<close> and \<open>rm\<close>.
\<close>

lemma shear_matrix_entries:
  "shear_matrix s (l0, l1, l2) (m0, m1, m2) =
     ((1 + s * l0 * m0, s * l0 * m1, s * l0 * m2),
      (s * l1 * m0, 1 + s * l1 * m1, s * l1 * m2),
      (s * l2 * m0, s * l2 * m1, 1 + s * l2 * m2))"
  by (simp add: shear_matrix_def zeros33_def)

lemma shear_matrix_vneg: "shear_matrix s (vneg rl) (vneg rm) = shear_matrix s rl rm"
  by (cases rl; cases rm) (simp add: shear_matrix_entries)


lemma OR_NCtwins_flag:
  "OR_NCtwins linv K1 eta1 rPm a normal_pos = OR_NCtwins linv K1 eta1 rPm a True"
  by (cases normal_pos)
     (simp_all add: OR_NCtwins_def Let_def matvec_vneg vecmat_vneg dot_vneg vdiv_vneg
        shear_matrix_vneg split: sum.splits)

text \<open>
  When the inverse of \<open>G\<close> is taken without rounding, the number under the square root
  is not negative.
\<close>

lemma OR_NCtwins_radicand_nonneg:
  assumes "exact_inv (matmul (transpose33 (mscale rPm a)) (mscale rPm a)) = Inr Ginv"
  shows "0 \<le> np_trace (matmul (matmul (matmul (transpose33 corrC)
            (matmul (transpose33 (mscale rPm a)) (mscale rPm a))) corrC) Ginv) - 3"
proof -
  have "det33 (matmul (transpose33 (mscale rPm a)) (mscale rPm a)) \<noteq> 0"
    using assms by (auto simp: exact_inv_def split: if_splits)
  moreover have "Ginv = minverse (matmul (transpose33 (mscale rPm a)) (mscale rPm a))"
    using assms by (auto simp: exact_inv_def split: if_splits)
  ultimately have "spec_inverse (matmul (transpose33 (mscale rPm a)) (mscale rPm a)) Ginv"
    by (simp add: spec_inverse_minverse)
  then show ?thesis
    by (rule radicand_nonneg)
qed

lemma OR_NCtwins_example:
  "OR_NCtwins exact_inv (0, 1, 0) (1, 0, 0) ((1, 0, 0), (0, 2, 0), (0, 0, 1)) 1 True
     = Returns ((0, - (1 / 2), 0), (2, - 3, 0), (0, 0, 1))"
  by (simp add: OR_NCtwins_def Let_def exact_inv_def minverse_def corrC_def vecmat_def
      shear_matrix_entries sqrt_9_4 sqrt_1_4)







text \<open>
  Claim C4. \<^verbatim>\<open>OR_NCtwins(-K1, -eta1, rPm, a, False)\<close> and
  \<^verbatim>\<open>OR_NCtwins(K1, eta1, rPm, a, True)\<close> have the same outcome: the negation made when
  \<open>normal_pos\<close> is false undoes the sign put on the two vectors.
\<close>

theorem OR_NCtwins_sign_convention:
  "OR_NCtwins linv (vneg K1) (vneg eta1) rPm a False = OR_NCtwins linv K1 eta1 rPm a True"
  by (simp add: OR_NCtwins_def vneg_vneg)

theorem OR_NCtwins_sign_convention_witness:
  "OR_NCtwins exact_inv (0, - 1, 0) (- 1, 0, 0) ((1, 0, 0), (0, 2, 0), (0, 0, 1)) 1 False
     = Returns ((0, - (1 / 2), 0), (2, - 3, 0), (0, 0, 1))"
  using OR_NCtwins_sign_convention
      [of exact_inv "(0, 1, 0)" "(1, 0, 0)" "((1, 0, 0), (0, 2, 0), (0, 0, 1))" 1]
    OR_NCtwins_example
  by simp

text \<open>
  Claim C5. The flag \<open>normal_pos\<close> has no effect on the outcome:
  \<^verbatim>\<open>OR_NCtwins(K1, eta1, rPm, a, False)\<close> equals \<^verbatim>\<open>OR_NCtwins(K1, eta1, rPm, a, True)\<close>,
  since negating \<open>K1\<close> and \<open>eta1\<close> together negates both unit vectors and leaves every
  product \<open>rl\<^sub>i * rm\<^sub>j\<close> as it was.
\<close>

theorem OR_NCtwins_normal_pos_irrelevant:
  "OR_NCtwins linv K1 eta1 rPm a False = OR_NCtwins linv K1 eta1 rPm a True"
  by (rule OR_NCtwins_flag)

theorem OR_NCtwins_normal_pos_irrelevant_witness:
  "OR_NCtwins exact_inv (0, 1, 0) (1, 0, 0) ((1, 0, 0), (0, 2, 0), (0, 0, 1)) 1 False
     = Returns ((0, - (1 / 2), 0), (2, - 3, 0), (0, 0, 1))"
  using OR_NCtwins_normal_pos_irrelevant
      [of exact_inv "(0, 1, 0)" "(1, 0, 0)" "((1, 0, 0), (0, 2, 0), (0, 0, 1))" 1]
    OR_NCtwins_example
  by simp




end
